theory Spec2Isabelle
  imports Main "HOL-Library.Sublist" "HOL-Library.Log_Nat"
begin

section \<open>Python values used by the import pipeline\<close>

text \<open>
  Text is modelled by \<open>string\<close>: a list of characters whose code points are below 256.
  On this range \<open>str.strip\<close>, \<open>str.lower\<close> and the substring test \<open>in\<close> are modelled
  exactly as the interpreter computes them. Exceptions are values of \<open>pyexc\<close>; a function
  that can raise returns \<open>pyexc + 'a\<close> with \<open>Inl\<close> for the exception.
\<close>

datatype pyexc =
    KeyError string
  | ValueError string
  | TypeError string
  | OverflowError string
  | MultipleResultsFound
  | HTTPException nat string
  | OtherError string

text \<open>\<open>str(exc)\<close>: a \<open>KeyError\<close> prints the repr of its key.\<close>

fun exc_text :: "pyexc \<Rightarrow> string" where
  "exc_text (KeyError k) = [CHR 0x27] @ k @ [CHR 0x27]"
| "exc_text (ValueError m) = m"
| "exc_text (TypeError m) = m"
| "exc_text (OverflowError m) = m"
| "exc_text MultipleResultsFound = ''Multiple rows were found when one or none was required''"
| "exc_text (HTTPException c m) = m"
| "exc_text (OtherError m) = m"

fun is_ValueError :: "pyexc \<Rightarrow> bool" where
  "is_ValueError (ValueError m) = True"
| "is_ValueError e = False"

fun is_TypeError :: "pyexc \<Rightarrow> bool" where
  "is_TypeError (TypeError m) = True"
| "is_TypeError e = False"

text \<open>A dictionary entry read with \<open>d.get(k)\<close>: the key is absent, holds \<open>None\<close>, or holds a value.\<close>

datatype 'a field = Missing | Null | Val 'a

definition code_point :: "char \<Rightarrow> nat" where
  "code_point c = of_char c"

text \<open>The characters below 256 that \<open>str.strip\<close> removes.\<close>

definition py_isspace :: "char \<Rightarrow> bool" where
  "py_isspace c = (let n = code_point c in
     (9 \<le> n \<and> n \<le> 13) \<or> (28 \<le> n \<and> n \<le> 32) \<or> n = 133 \<or> n = 160)"

definition py_strip :: "string \<Rightarrow> string" where
  "py_strip s = rev (dropWhile py_isspace (rev (dropWhile py_isspace s)))"

definition lower_char :: "char \<Rightarrow> char" where
  "lower_char c = (let n = code_point c in
     if (65 \<le> n \<and> n \<le> 90) \<or> (192 \<le> n \<and> n \<le> 222 \<and> n \<noteq> 215)
     then char_of (n + 32) else c)"

definition py_lower :: "string \<Rightarrow> string" where
  "py_lower s = map lower_char s"

text \<open>\<open>needle in haystack\<close> on strings.\<close>

definition py_in :: "string \<Rightarrow> string \<Rightarrow> bool" where
  "py_in needle haystack = sublist needle haystack"

text \<open>Truthiness of an optional string: \<open>None\<close> and the empty string are falsy.\<close>

fun or_none :: "string \<Rightarrow> string option" where
  "or_none s = (if s = [] then None else Some s)"

subsection \<open>Binary floating point\<close>

text \<open>
  A Python float is an IEEE 754 binary64 value. \<open>Fin m e\<close> stands for the finite value
  \<open>m * 2 ^ e\<close>. \<open>round_binary64 neg a b\<close> is the binary64 value nearest to the fraction
  \<open>a / b\<close> (ties to even), with the sign \<open>neg\<close>, as \<open>float(str)\<close> and float
  multiplication compute it; a result of magnitude \<open>2 ^ 1024\<close> or more is an infinity.
\<close>

datatype pyfloat = Fin int int | PInf | NInf | NaN

definition rhe :: "nat \<Rightarrow> nat \<Rightarrow> nat" where
  "rhe a b = (let q = a div b; r = a mod b in
     if 2 * r < b then q else if b < 2 * r then q + 1 else if even q then q else q + 1)"

definition ilog2q :: "nat \<Rightarrow> nat \<Rightarrow> int" where
  "ilog2q a b = (let d = int (floorlog 2 a) - int (floorlog 2 b) in
     if (if 0 \<le> d then b * 2 ^ nat d \<le> a else b \<le> a * 2 ^ nat (- d)) then d else d - 1)"

definition round_binary64 :: "bool \<Rightarrow> nat \<Rightarrow> nat \<Rightarrow> pyfloat" where
  "round_binary64 neg a b =
     (if a = 0 then Fin 0 0
      else let e = max (ilog2q a b) (- 1022) - 52;
               n = (if 0 \<le> e then rhe a (b * 2 ^ nat e) else rhe (a * 2 ^ nat (- e)) b)
           in if 0 \<le> e \<and> 2 ^ 1024 \<le> n * 2 ^ nat e then (if neg then NInf else PInf)
              else Fin (if neg then - int n else int n) e)"

text \<open>Float multiplication \<open>x * y\<close>.\<close>

fun fsign :: "pyfloat \<Rightarrow> bool" where
  "fsign (Fin m e) = (m < 0)"
| "fsign PInf = False"
| "fsign NInf = True"
| "fsign NaN = False"

fun fmul :: "pyfloat \<Rightarrow> pyfloat \<Rightarrow> pyfloat" where
  "fmul NaN y = NaN"
| "fmul x NaN = NaN"
| "fmul (Fin m1 e1) (Fin m2 e2) =
     (let a = nat (abs (m1 * m2)); e = e1 + e2; neg = ((m1 < 0) \<noteq> (m2 < 0)) in
      if 0 \<le> e then round_binary64 neg (a * 2 ^ nat e) 1
      else round_binary64 neg a (2 ^ nat (- e)))"
| "fmul (Fin m e) y = (if m = 0 then NaN else if (m < 0) \<noteq> fsign y then NInf else PInf)"
| "fmul x (Fin m e) = (if m = 0 then NaN else if (m < 0) \<noteq> fsign x then NInf else PInf)"
| "fmul x y = (if fsign x \<noteq> fsign y then NInf else PInf)"

text \<open>\<open>round(x)\<close> with one argument: the nearest integer, ties to even.\<close>

fun py_round :: "pyfloat \<Rightarrow> pyexc + int" where
  "py_round (Fin m e) =
     (if 0 \<le> e then Inr (m * 2 ^ nat e)
      else let n = int (rhe (nat (abs m)) (2 ^ nat (- e))) in Inr (if m < 0 then - n else n))"
| "py_round NaN = Inl (ValueError ''cannot convert float NaN to integer'')"
| "py_round x = Inl (OverflowError ''cannot convert float infinity to integer'')"

text \<open>
  \<open>float(s)\<close> on text: surrounding whitespace is ignored; an underscore must stand between
  two digits; after an optional sign come \<open>inf\<close>, \<open>infinity\<close> or \<open>nan\<close> in any case, or
  a decimal numeral with an optional exponent. \<open>None\<close> is the \<open>ValueError\<close> of text that
  is not a float literal.

  The whitespace \<open>float\<close> ignores is narrower than what \<open>str.strip\<close> removes: the
  ASCII separators 0x1C to 0x1F stay in the text, which is then not a float literal.
\<close>

definition float_isspace :: "char \<Rightarrow> bool" where
  "float_isspace c = (let n = code_point c in
     (9 \<le> n \<and> n \<le> 13) \<or> n = 32 \<or> n = 133 \<or> n = 160)"

definition float_strip :: "string \<Rightarrow> string" where
  "float_strip s = rev (dropWhile float_isspace (rev (dropWhile float_isspace s)))"

definition is_digit :: "char \<Rightarrow> bool" where
  "is_digit c = (48 \<le> code_point c \<and> code_point c \<le> 57)"

definition digits_val :: "string \<Rightarrow> nat" where
  "digits_val ds = foldl (\<lambda>n c. 10 * n + (code_point c - 48)) 0 ds"

fun underscores_ok :: "char \<Rightarrow> string \<Rightarrow> bool" where
  "underscores_ok prev [] = (prev \<noteq> CHR ''_'')"
| "underscores_ok prev (c # cs) =
     ((if c = CHR ''_'' then is_digit prev
       else if prev = CHR ''_'' then is_digit c else True)
      \<and> underscores_ok c cs)"

fun split_sign :: "string \<Rightarrow> bool \<times> string" where
  "split_sign [] = (False, [])"
| "split_sign (c # cs) =
     (if c = CHR ''-'' then (True, cs) else if c = CHR ''+'' then (False, cs) else (False, c # cs))"

definition parse_exponent :: "string \<Rightarrow> int option" where
  "parse_exponent r =
     (case r of
        [] \<Rightarrow> Some 0
      | c # cs \<Rightarrow>
          if c = CHR ''e'' \<or> c = CHR ''E'' then
            (case split_sign cs of (eneg, ds) \<Rightarrow>
               if ds \<noteq> [] \<and> list_all is_digit ds
               then Some (if eneg then - int (digits_val ds) else int (digits_val ds))
               else None)
          else None)"

definition parse_number :: "bool \<Rightarrow> string \<Rightarrow> pyfloat option" where
  "parse_number neg u =
     (let ip = takeWhile is_digit u;
          r1 = dropWhile is_digit u;
          dot = (r1 \<noteq> [] \<and> hd r1 = CHR ''.'');
          fp = (if dot then takeWhile is_digit (tl r1) else []);
          r2 = (if dot then dropWhile is_digit (tl r1) else r1)
      in if ip = [] \<and> fp = [] then None
         else (case parse_exponent r2 of
                 None \<Rightarrow> None
               | Some ex \<Rightarrow>
                   let d = digits_val (ip @ fp); k = ex - int (length fp) in
                   Some (if 0 \<le> k then round_binary64 neg (d * 10 ^ nat k) 1
                         else round_binary64 neg d (10 ^ nat (- k)))))"

definition py_float :: "string \<Rightarrow> pyfloat option" where
  "py_float s0 =
     (let s = float_strip s0 in
      if \<not> underscores_ok (CHR 0x00) s then None
      else (case split_sign (filter (\<lambda>c. c \<noteq> CHR ''_'') s) of (neg, u) \<Rightarrow>
              let l = py_lower u in
              if l = ''inf'' \<or> l = ''infinity'' then Some (if neg then NInf else PInf)
              else if l = ''nan'' then Some NaN
              else parse_number neg u))"

section \<open>Parsers\<close>

subsection \<open>Parsed rows\<close>

text \<open>
  A parsed row is the dictionary a parser returns for one data row. A key read with
  \<open>row[k]\<close> is an \<open>option\<close> (\<open>None\<close>: the key is absent and the read raises \<open>KeyError\<close>);
  a key read with \<open>row.get(k)\<close> is a \<open>field\<close>.
\<close>

record row =
  date :: "string option"
  original_date :: "string field"
  account_type :: "string option"
  account_name :: "string option"
  account_number_last4 :: "string field"
  institution_name :: "string option"
  merchant_name :: "string field"
  custom_name :: "string field"
  amount_cents :: "int option"
  description :: "string option"
  original_description :: "string field"
  category_name :: "string field"
  row_note :: "string field"
  is_transfer :: "bool option"
  is_tax_deductible :: "bool option"
  tags :: "string list field"

subsection \<open>The fixed-format parser (rocket\_money.py)\<close>

definition ACCOUNT_TYPE_MAP :: "string \<Rightarrow> string option" where
  "ACCOUNT_TYPE_MAP = map_of
     [(''Cash'', ''checking''),
      (''Credit Card'', ''credit_card''),
      (''Savings'', ''savings''),
      (''Brokerage'', ''brokerage''),
      (''Retirement'', ''retirement''),
      (''Loan'', ''loan'')]"

definition TRANSFER_CATEGORIES :: "string set" where
  "TRANSFER_CATEGORIES = {''Credit Card Payment'', ''Internal Transfers'', ''Savings Transfer''}"

text \<open>
  One row of the data frame: \<open>cell col dflt\<close> is \<open>str(row.get(col, dflt))\<close>, the text of the
  cell in column \<open>col\<close>, or \<open>dflt\<close> when the file has no such column.
\<close>

type_synonym csv_row = "string \<Rightarrow> string option"

definition cell :: "csv_row \<Rightarrow> string \<Rightarrow> string \<Rightarrow> string" where
  "cell r col dflt = (case r col of None \<Rightarrow> dflt | Some v \<Rightarrow> v)"

text \<open>\<open>round(float(amount_str) * 100)\<close> under \<open>except ValueError\<close>.\<close>

definition rocket_amount_cents :: "string \<Rightarrow> pyexc + int" where
  "rocket_amount_cents amount_str =
     (case py_float amount_str of
        None \<Rightarrow> Inr 0
      | Some x \<Rightarrow>
          (case py_round (fmul x (Fin 100 0)) of
             Inl e \<Rightarrow> if is_ValueError e then Inr 0 else Inl e
           | Inr n \<Rightarrow> Inr n))"

fun to_field :: "string option \<Rightarrow> string field" where
  "to_field None = Null"
| "to_field (Some s) = Val s"

text \<open>\<open>s.split(sep)\<close> for a separator of one character.\<close>

fun py_split :: "char \<Rightarrow> string \<Rightarrow> string list" where
  "py_split sep [] = [[]]"
| "py_split sep (c # cs) =
     (if c = sep then [] # py_split sep cs
      else (case py_split sep cs of
              [] \<Rightarrow> [[c]]
            | w # ws \<Rightarrow> (c # w) # ws))"

definition split_tags :: "string \<Rightarrow> string list" where
  "split_tags tags_raw =
     (if tags_raw = [] then []
      else filter (\<lambda>t. t \<noteq> []) (map py_strip (py_split (CHR '','') tags_raw)))"

definition rocket_parse_row :: "csv_row \<Rightarrow> pyexc + row" where
  "rocket_parse_row r =
     (case rocket_amount_cents (py_strip (cell r ''Amount'' ''0'')) of
        Inl e \<Rightarrow> Inl e
      | Inr amount \<Rightarrow>
          let category = py_strip (cell r ''Category'' []);
              tags_raw = py_strip (cell r ''Transaction Tags'' []);
              tgs = split_tags tags_raw;
              nt = or_none (py_strip (cell r ''Note'' []));
              tax_deductible_str = py_lower (py_strip (cell r ''Tax Deductible'' []));
              acct_type_raw = py_strip (cell r ''Account Type'' []);
              acct_type = (case ACCOUNT_TYPE_MAP acct_type_raw of
                             None \<Rightarrow> ''checking'' | Some t \<Rightarrow> t)
          in Inr \<lparr> date = Some (py_strip (cell r ''Date'' [])),
                   original_date = to_field (or_none (py_strip (cell r ''Original Date'' []))),
                   account_type = Some acct_type,
                   account_name = Some (py_strip (cell r ''Account Name'' [])),
                   account_number_last4 =
                     to_field (or_none (py_strip (cell r ''Account Number'' []))),
                   institution_name = Some (py_strip (cell r ''Institution Name'' [])),
                   merchant_name = to_field (or_none (py_strip (cell r ''Name'' []))),
                   custom_name = to_field (or_none (py_strip (cell r ''Custom Name'' []))),
                   amount_cents = Some amount,
                   description = Some (py_strip (cell r ''Description'' [])),
                   original_description = Val (py_strip (cell r ''Description'' [])),
                   category_name = Val category,
                   row_note = to_field nt,
                   is_transfer = Some (category \<in> TRANSFER_CATEGORIES),
                   is_tax_deductible =
                     Some (tax_deductible_str \<in> {''true'', ''yes'', ''1''}),
                   tags = (if tgs = [] then Null else Val tgs) \<rparr>)"

text \<open>The loop over the data frame: the first row that raises ends the parse.\<close>

fun rocket_parse :: "csv_row list \<Rightarrow> pyexc + row list" where
  "rocket_parse [] = Inr []"
| "rocket_parse (r # rs) =
     (case rocket_parse_row r of
        Inl e \<Rightarrow> Inl e
      | Inr x \<Rightarrow> (case rocket_parse rs of Inl e \<Rightarrow> Inl e | Inr xs \<Rightarrow> Inr (x # xs)))"

subsection \<open>The schema-based parser (schema\_based.py)\<close>

text \<open>
  Library functions the parser calls are parameters: the UTF-8 decoder (\<open>None\<close> when the
  bytes are not valid UTF-8), \<open>re.search\<close> with and without \<open>re.IGNORECASE\<close> (\<open>Inl\<close> when the
  pattern does not compile), and \<open>datetime.strptime\<close> followed by
  \<open>strftime("%Y-%m-%d")\<close> (\<open>None\<close> when the text does not match the format).
\<close>

record pylib =
  utf8_decode :: "string \<Rightarrow> string option"
  re_search :: "string \<Rightarrow> string \<Rightarrow> pyexc + bool"
  re_search_ignorecase :: "string \<Rightarrow> string \<Rightarrow> pyexc + bool"
  reformat_date :: "string \<Rightarrow> string \<Rightarrow> string option"

record detection_rules =
  file_extension :: "string list option"
  header_contains :: "string list option"
  header_pattern :: "string option"
  filename_pattern :: "string option"

text \<open>Values of a parsed record and of the JSON rules.\<close>

datatype pyval = PNone | PBool bool | PInt int | PFloat pyfloat | PStr string

fun truthy :: "pyval \<Rightarrow> bool" where
  "truthy PNone = False"
| "truthy (PBool b) = b"
| "truthy (PInt n) = (n \<noteq> 0)"
| "truthy (PFloat (Fin m e)) = (m \<noteq> 0)"
| "truthy (PFloat x) = True"
| "truthy (PStr s) = (s \<noteq> [])"

text \<open>\<open>float(v)\<close> on a value.\<close>

fun float_of_val :: "pyval \<Rightarrow> pyexc + pyfloat" where
  "float_of_val PNone =
     Inl (TypeError ''float() argument must be a string or a real number, not 'NoneType' '')"
| "float_of_val (PBool b) = Inr (Fin (if b then 1 else 0) 0)"
| "float_of_val (PInt n) =
     (case round_binary64 (n < 0) (nat (abs n)) 1 of
        Fin m e \<Rightarrow> Inr (Fin m e)
      | x \<Rightarrow> Inl (OverflowError ''int too large to convert to float''))"
| "float_of_val (PFloat x) = Inr x"
| "float_of_val (PStr s) =
     (case py_float s of
        None \<Rightarrow> Inl (ValueError (''could not convert string to float: '' @ s))
      | Some x \<Rightarrow> Inr x)"

record transform_rules =
  delimiter :: "string option"
  date_format :: "string option"
  amount_multiplier :: "pyval option"
  defaults :: "(string \<times> pyval) list option"

record parser_schema =
  schema_name :: string
  rules :: detection_rules
  column_mapping :: "(string \<times> string) list"
  transform :: transform_rules

definition file_ext :: "string \<Rightarrow> string" where
  "file_ext filename =
     (if CHR ''.'' \<in> set filename
      then CHR ''.'' # py_lower (rev (takeWhile (\<lambda>c. c \<noteq> CHR ''.'') (rev filename)))
      else [])"

definition first_line :: "pylib \<Rightarrow> string \<Rightarrow> string" where
  "first_line lib file_content =
     (case utf8_decode lib (takeWhile (\<lambda>c. c \<noteq> CHR 0x0A) file_content) of
        None \<Rightarrow> []
      | Some s \<Rightarrow> py_strip s)"

definition check_filename_pattern :: "pylib \<Rightarrow> detection_rules \<Rightarrow> string \<Rightarrow> pyexc + bool" where
  "check_filename_pattern lib rs filename =
     (case filename_pattern rs of
        None \<Rightarrow> Inr True
      | Some p \<Rightarrow> re_search_ignorecase lib p filename)"

definition check_rules :: "pylib \<Rightarrow> detection_rules \<Rightarrow> string \<Rightarrow> string \<Rightarrow> pyexc + bool" where
  "check_rules lib rs file_content filename =
     (if (case file_extension rs of
            None \<Rightarrow> False
          | Some exts \<Rightarrow> file_ext filename \<notin> set exts)
      then Inr False
      else if (case header_contains rs of
                 None \<Rightarrow> False
               | Some reqs \<Rightarrow>
                   \<not> list_all (\<lambda>required. py_in required (first_line lib file_content)) reqs)
      then Inr False
      else (case header_pattern rs of
              None \<Rightarrow> check_filename_pattern lib rs filename
            | Some p \<Rightarrow>
                (case re_search lib p (first_line lib file_content) of
                   Inl e \<Rightarrow> Inl e
                 | Inr found \<Rightarrow>
                     if found then check_filename_pattern lib rs filename else Inr False)))"

fun match_schema ::
  "pylib \<Rightarrow> parser_schema list \<Rightarrow> string \<Rightarrow> string \<Rightarrow> pyexc + parser_schema option" where
  "match_schema lib [] file_content filename = Inr None"
| "match_schema lib (s # ss) file_content filename =
     (case check_rules lib (rules s) file_content filename of
        Inl e \<Rightarrow> Inl e
      | Inr ok \<Rightarrow>
          if ok then Inr (Some s) else match_schema lib ss file_content filename)"

definition schema_detect :: "pylib \<Rightarrow> parser_schema list \<Rightarrow> string \<Rightarrow> string \<Rightarrow> pyexc + bool" where
  "schema_detect lib schemas file_content filename =
     (case match_schema lib schemas file_content filename of
        Inl e \<Rightarrow> Inl e
      | Inr m \<Rightarrow> Inr (m \<noteq> None))"

text \<open>
  The amount conversion of one record: \<open>amount\<close> is \<open>record["amount_cents"]\<close> (the mapped
  cell text), \<open>mult\<close> is \<open>transform_rules["amount_multiplier"]\<close> when the key is present.
  Both branches catch \<open>ValueError\<close> and \<open>TypeError\<close> only.
\<close>

definition catch_value_type :: "pyexc + int \<Rightarrow> pyexc + int" where
  "catch_value_type r =
     (case r of
        Inl e \<Rightarrow> if is_ValueError e \<or> is_TypeError e then Inr 0 else Inl e
      | Inr n \<Rightarrow> Inr n)"

definition schema_amount_cents :: "pyval option \<Rightarrow> string \<Rightarrow> pyexc + int" where
  "schema_amount_cents mult amount =
     (case mult of
        Some mv \<Rightarrow>
          catch_value_type
            (case float_of_val (PStr amount) of
               Inl e \<Rightarrow> Inl e
             | Inr raw \<Rightarrow>
                 (case float_of_val mv of
                    Inl e \<Rightarrow> Inl e
                  | Inr multiplier \<Rightarrow> py_round (fmul raw multiplier)))
      | None \<Rightarrow>
          catch_value_type
            (case float_of_val (PStr amount) of
               Inl e \<Rightarrow> Inl e
             | Inr raw \<Rightarrow> py_round (fmul raw (Fin 100 0))))"

text \<open>One record of the schema-based parse: mapping, amount, date, defaults, in this order.\<close>

type_synonym record_dict = "string \<Rightarrow> pyval option"

definition map_columns :: "(string \<times> string) list \<Rightarrow> csv_row \<Rightarrow> record_dict" where
  "map_columns cm r =
     foldl (\<lambda>rec (target_field, source_col).
              rec(target_field \<mapsto> PStr (py_strip (cell r source_col [])))) Map.empty cm"

definition apply_amount :: "transform_rules \<Rightarrow> record_dict \<Rightarrow> pyexc + record_dict" where
  "apply_amount tr rec =
     (case rec ''amount_cents'' of
        None \<Rightarrow> Inr rec
      | Some v \<Rightarrow>
          (case schema_amount_cents (amount_multiplier tr) (case v of PStr s \<Rightarrow> s | x \<Rightarrow> []) of
             Inl e \<Rightarrow> Inl e
           | Inr n \<Rightarrow> Inr (rec(''amount_cents'' \<mapsto> PInt n))))"

definition apply_date :: "pylib \<Rightarrow> transform_rules \<Rightarrow> record_dict \<Rightarrow> record_dict" where
  "apply_date lib tr rec =
     (case (date_format tr, rec ''date'') of
        (Some fmt, Some (PStr d)) \<Rightarrow>
          (case reformat_date lib d fmt of
             None \<Rightarrow> rec
           | Some d' \<Rightarrow> rec(''date'' \<mapsto> PStr d'))
      | x \<Rightarrow> rec)"

definition apply_defaults :: "transform_rules \<Rightarrow> record_dict \<Rightarrow> record_dict" where
  "apply_defaults tr rec =
     foldl (\<lambda>rc (fld, dflt).
              if (case rc fld of None \<Rightarrow> False | Some v \<Rightarrow> truthy v) then rc
              else rc(fld \<mapsto> dflt))
       rec (case defaults tr of None \<Rightarrow> [] | Some ds \<Rightarrow> ds)"

definition schema_parse_row :: "pylib \<Rightarrow> parser_schema \<Rightarrow> csv_row \<Rightarrow> pyexc + record_dict" where
  "schema_parse_row lib sch r =
     (case apply_amount (transform sch) (map_columns (column_mapping sch) r) of
        Inl e \<Rightarrow> Inl e
      | Inr rec \<Rightarrow> Inr (apply_defaults (transform sch) (apply_date lib (transform sch) rec)))"

subsection \<open>A sample library and a sample schema\<close>





section \<open>Storage\<close>

text \<open>
  The relational store: one list of records per table, in insertion order. Identifiers
  (UUIDs in the source) are natural numbers drawn from a counter. A session holds the
  committed store and the working store that its queries see (every query flushes pending
  objects first, so an added object is visible at once). \<open>commit\<close> makes the working
  store the committed one; \<open>rollback\<close> discards the working store.
\<close>

type_synonym uuid = nat

type_synonym pydate = "nat \<times> nat \<times> nat"

record institution =
  inst_id :: uuid
  inst_name :: string

record account =
  acct_id :: uuid
  acct_user_id :: "uuid option"
  acct_institution_id :: uuid
  acct_name :: string
  acct_type :: string
  acct_last4 :: "string option"

record category =
  cat_id :: uuid
  cat_name :: string
  cat_is_system :: bool

record txn =
  txn_id :: uuid
  txn_account_id :: uuid
  txn_date :: pydate
  txn_original_date :: "pydate option"
  txn_amount_cents :: int
  txn_description :: string
  txn_original_description :: "string option"
  txn_merchant_name :: "string option"
  txn_category_id :: "uuid option"
  txn_custom_name :: "string option"
  txn_note :: "string option"
  txn_is_transfer :: bool
  txn_is_tax_deductible :: bool
  txn_tags :: "string list option"
  txn_import_job_id :: "uuid option"

datatype import_status =
  PENDING | PROCESSING | COMPLETED | FAILED | CATEGORIZING | PARTIALLY_FAILED

record import_job =
  job_id :: uuid
  job_user_id :: uuid
  job_filename :: string
  job_source_type :: string
  job_status :: import_status
  total_rows :: nat
  imported_rows :: nat
  duplicate_rows :: nat
  processed_rows :: nat
  categorized_rows :: nat
  uncategorized_rows :: nat
  error_message :: "string option"
  completed_at_set :: bool
  job_source :: string

record store =
  institutions :: "institution list"
  accounts :: "account list"
  categories :: "category list"
  transactions :: "txn list"
  jobs :: "import_job list"
  schemas :: "parser_schema list"

record session =
  committed :: store
  working :: store
  next_id :: uuid

definition commit :: "session \<Rightarrow> session" where
  "commit s = s\<lparr>committed := working s\<rparr>"

definition rollback :: "session \<Rightarrow> session" where
  "rollback s = s\<lparr>working := committed s\<rparr>"

text \<open>
  \<open>scalar_one_or_none\<close> on the rows a query returns: no row is \<open>None\<close>, one row is that
  row, more than one raises \<open>MultipleResultsFound\<close>.
\<close>

fun scalar_one_or_none :: "'a list \<Rightarrow> pyexc + 'a option" where
  "scalar_one_or_none [] = Inr None"
| "scalar_one_or_none [x] = Inr (Some x)"
| "scalar_one_or_none (x # y # zs) = Inl MultipleResultsFound"

text \<open>The value of \<open>d.get(k)\<close>: an absent key reads as \<open>None\<close>.\<close>

fun get_opt :: "'a field \<Rightarrow> 'a option" where
  "get_opt Missing = None"
| "get_opt Null = None"
| "get_opt (Val v) = Some v"

definition put_job :: "import_job \<Rightarrow> store \<Rightarrow> store" where
  "put_job j st =
     (if job_id j \<in> job_id ` set (jobs st)
      then st\<lparr>jobs := map (\<lambda>k. if job_id k = job_id j then j else k) (jobs st)\<rparr>
      else st\<lparr>jobs := jobs st @ [j]\<rparr>)"

definition get_job :: "store \<Rightarrow> uuid \<Rightarrow> import_job option" where
  "get_job st jid = find (\<lambda>j. job_id j = jid) (jobs st)"

section \<open>The import engine (import\_service.py)\<close>

subsection \<open>Entity resolution and deduplication\<close>

definition get_or_create_institution :: "session \<Rightarrow> string \<Rightarrow> pyexc + institution \<times> session" where
  "get_or_create_institution s name =
     (case scalar_one_or_none (filter (\<lambda>i. inst_name i = name) (institutions (working s))) of
        Inl e \<Rightarrow> Inl e
      | Inr (Some inst) \<Rightarrow> Inr (inst, s)
      | Inr None \<Rightarrow>
          let inst = \<lparr> inst_id = next_id s, inst_name = name \<rparr> in
          Inr (inst, s\<lparr> working := (working s)\<lparr> institutions := institutions (working s) @ [inst] \<rparr>,
                       next_id := Suc (next_id s) \<rparr>))"

definition AccountType_values :: "string list" where
  "AccountType_values =
     [''checking'', ''savings'', ''credit_card'', ''brokerage'', ''retirement'',
      ''crypto'', ''hsa'', ''loan'', ''mortgage'', ''cash'']"

text \<open>\<open>AccountType(account_type)\<close> with the fallback to \<open>CHECKING\<close> on \<open>ValueError\<close>.\<close>

definition account_type_enum :: "string \<Rightarrow> string" where
  "account_type_enum t = (if t \<in> set AccountType_values then t else ''checking'')"

definition last4_truthy :: "string option \<Rightarrow> bool" where
  "last4_truthy last4 = (case last4 of None \<Rightarrow> False | Some l \<Rightarrow> l \<noteq> [])"

definition account_matches :: "uuid \<Rightarrow> string \<Rightarrow> string option \<Rightarrow> account \<Rightarrow> bool" where
  "account_matches iid name last4 a =
     (acct_institution_id a = iid \<and> acct_name a = name \<and>
      (if last4_truthy last4 then acct_last4 a = last4 else True))"

definition get_or_create_account ::
  "session \<Rightarrow> institution \<Rightarrow> string \<Rightarrow> string \<Rightarrow> string option \<Rightarrow> uuid option \<Rightarrow>
   pyexc + account \<times> session" where
  "get_or_create_account s inst name acct_tp last4 user_id =
     (case scalar_one_or_none
             (filter (account_matches (inst_id inst) name last4) (accounts (working s))) of
        Inl e \<Rightarrow> Inl e
      | Inr (Some a) \<Rightarrow> Inr (a, s)
      | Inr None \<Rightarrow>
          let a = \<lparr> acct_id = next_id s, acct_user_id = user_id,
                    acct_institution_id = inst_id inst, acct_name = name,
                    acct_type = account_type_enum acct_tp, acct_last4 = last4 \<rparr> in
          Inr (a, s\<lparr> working := (working s)\<lparr> accounts := accounts (working s) @ [a] \<rparr>,
                    next_id := Suc (next_id s) \<rparr>))"

definition get_or_create_category :: "session \<Rightarrow> string \<Rightarrow> pyexc + category \<times> session" where
  "get_or_create_category s name =
     (case scalar_one_or_none (filter (\<lambda>c. cat_name c = name) (categories (working s))) of
        Inl e \<Rightarrow> Inl e
      | Inr (Some c) \<Rightarrow> Inr (c, s)
      | Inr None \<Rightarrow>
          let c = \<lparr> cat_id = next_id s, cat_name = name, cat_is_system = True \<rparr> in
          Inr (c, s\<lparr> working := (working s)\<lparr> categories := categories (working s) @ [c] \<rparr>,
                    next_id := Suc (next_id s) \<rparr>))"

definition is_duplicate :: "session \<Rightarrow> uuid \<Rightarrow> pydate \<Rightarrow> int \<Rightarrow> string \<Rightarrow> bool" where
  "is_duplicate s account_id d amount descr =
     (\<exists>t \<in> set (transactions (working s)).
        txn_account_id t = account_id \<and> txn_date t = d \<and>
        txn_amount_cents t = amount \<and> txn_description t = descr)"

subsection \<open>One row of the import loop\<close>

text \<open>
  The state of the loop: the session, the three caches of the run and the two counters.
\<close>

record loop_state =
  sess :: session
  inst_cache :: "string \<Rightarrow> institution option"
  acct_cache :: "string \<Rightarrow> account option"
  cat_cache :: "string \<Rightarrow> category option"
  imported :: nat
  duplicates :: nat

text \<open>The text an f-string prints for \<open>row.get('account_number_last4', '')\<close>.\<close>

fun last4_text :: "string field \<Rightarrow> string" where
  "last4_text Missing = []"
| "last4_text Null = ''None''"
| "last4_text (Val v) = v"

definition acct_key :: "string \<Rightarrow> string \<Rightarrow> string field \<Rightarrow> string" where
  "acct_key inst_nm acct_nm last4 = inst_nm @ ''|'' @ acct_nm @ ''|'' @ last4_text last4"

text \<open>\<open>row.get("category_name", "Uncategorized") or "Uncategorized"\<close>.\<close>

fun row_category_name :: "string field \<Rightarrow> string" where
  "row_category_name Missing = ''Uncategorized''"
| "row_category_name Null = ''Uncategorized''"
| "row_category_name (Val v) = (if v = [] then ''Uncategorized'' else v)"

definition require :: "string \<Rightarrow> 'a option \<Rightarrow> pyexc + 'a" where
  "require key v = (case v of None \<Rightarrow> Inl (KeyError key) | Some x \<Rightarrow> Inr x)"

definition resolve_institution :: "loop_state \<Rightarrow> string \<Rightarrow> pyexc + institution \<times> loop_state" where
  "resolve_institution st inst_nm =
     (case inst_cache st inst_nm of
        Some inst \<Rightarrow> Inr (inst, st)
      | None \<Rightarrow>
          (case get_or_create_institution (sess st) inst_nm of
             Inl e \<Rightarrow> Inl e
           | Inr (inst, s') \<Rightarrow>
               Inr (inst, st\<lparr> sess := s', inst_cache := (inst_cache st)(inst_nm \<mapsto> inst) \<rparr>)))"

definition resolve_account ::
  "uuid option \<Rightarrow> row \<Rightarrow> loop_state \<Rightarrow> institution \<Rightarrow> string \<Rightarrow> pyexc + account \<times> loop_state" where
  "resolve_account user_id r st inst inst_nm =
     (case require ''account_name'' (account_name r) of
        Inl e \<Rightarrow> Inl e
      | Inr acct_nm \<Rightarrow>
          (case acct_cache st (acct_key inst_nm acct_nm (account_number_last4 r)) of
             Some a \<Rightarrow> Inr (a, st)
           | None \<Rightarrow>
               (case require ''account_type'' (account_type r) of
                  Inl e \<Rightarrow> Inl e
                | Inr acct_tp \<Rightarrow>
                    (case get_or_create_account (sess st) inst acct_nm acct_tp
                            (get_opt (account_number_last4 r)) user_id of
                       Inl e \<Rightarrow> Inl e
                     | Inr (a, s') \<Rightarrow>
                         Inr (a, st\<lparr> sess := s',
                                     acct_cache := (acct_cache st)
                                       (acct_key inst_nm acct_nm (account_number_last4 r) \<mapsto> a) \<rparr>)))))"

definition resolve_category :: "loop_state \<Rightarrow> string \<Rightarrow> pyexc + category \<times> loop_state" where
  "resolve_category st cat_nm =
     (case cat_cache st cat_nm of
        Some c \<Rightarrow> Inr (c, st)
      | None \<Rightarrow>
          (case get_or_create_category (sess st) cat_nm of
             Inl e \<Rightarrow> Inl e
           | Inr (c, s') \<Rightarrow>
               Inr (c, st\<lparr> sess := s', cat_cache := (cat_cache st)(cat_nm \<mapsto> c) \<rparr>)))"

text \<open>
  The two dates of a row: \<open>date.fromisoformat(row["date"])\<close>, and the same on
  \<open>row["original_date"]\<close> when \<open>row.get("original_date")\<close> is truthy.
\<close>

definition parse_dates :: "(string \<Rightarrow> pyexc + pydate) \<Rightarrow> row \<Rightarrow> pyexc + pydate \<times> pydate option" where
  "parse_dates fromiso r =
     (case require ''date'' (date r) of
        Inl e \<Rightarrow> Inl e
      | Inr d \<Rightarrow>
          (case fromiso d of
             Inl e \<Rightarrow> Inl e
           | Inr txn_d \<Rightarrow>
               (case get_opt (original_date r) of
                  None \<Rightarrow> Inr (txn_d, None)
                | Some od \<Rightarrow>
                    if od = [] then Inr (txn_d, None)
                    else (case fromiso od of
                            Inl e \<Rightarrow> Inl e
                          | Inr orig \<Rightarrow> Inr (txn_d, Some orig)))))"

definition new_txn ::
  "uuid \<Rightarrow> uuid \<Rightarrow> account \<Rightarrow> category \<Rightarrow> pydate \<Rightarrow> pydate option \<Rightarrow> int \<Rightarrow> string \<Rightarrow> row \<Rightarrow> txn" where
  "new_txn tid jid a c d od amount descr r =
     \<lparr> txn_id = tid, txn_account_id = acct_id a, txn_date = d, txn_original_date = od,
       txn_amount_cents = amount, txn_description = descr,
       txn_original_description = get_opt (original_description r),
       txn_merchant_name = get_opt (merchant_name r),
       txn_category_id = Some (cat_id c),
       txn_custom_name = get_opt (custom_name r),
       txn_note = get_opt (row_note r),
       txn_is_transfer = (case is_transfer r of None \<Rightarrow> False | Some b \<Rightarrow> b),
       txn_is_tax_deductible = (case is_tax_deductible r of None \<Rightarrow> False | Some b \<Rightarrow> b),
       txn_tags = get_opt (tags r),
       txn_import_job_id = Some jid \<rparr>"

definition stage_txn ::
  "uuid \<Rightarrow> loop_state \<Rightarrow> account \<Rightarrow> category \<Rightarrow> pydate \<Rightarrow> pydate option \<Rightarrow> row \<Rightarrow>
   pyexc + loop_state" where
  "stage_txn jid st a c d od r =
     (case require ''amount_cents'' (amount_cents r) of
        Inl e \<Rightarrow> Inl e
      | Inr amount \<Rightarrow>
          (case require ''description'' (description r) of
             Inl e \<Rightarrow> Inl e
           | Inr descr \<Rightarrow>
               if is_duplicate (sess st) (acct_id a) d amount descr
               then Inr (st\<lparr> duplicates := duplicates st + 1 \<rparr>)
               else
                 let s = sess st;
                     t = new_txn (next_id s) jid a c d od amount descr r
                 in Inr (st\<lparr> sess := s\<lparr> working := (working s)
                                          \<lparr> transactions := transactions (working s) @ [t] \<rparr>,
                                        next_id := Suc (next_id s) \<rparr>,
                              imported := imported st + 1 \<rparr>)))"

definition process_row ::
  "(string \<Rightarrow> pyexc + pydate) \<Rightarrow> uuid option \<Rightarrow> uuid \<Rightarrow> row \<Rightarrow> loop_state \<Rightarrow> pyexc + loop_state" where
  "process_row fromiso user_id jid r st =
     (case require ''institution_name'' (institution_name r) of
        Inl e \<Rightarrow> Inl e
      | Inr inst_nm \<Rightarrow>
          (case resolve_institution st inst_nm of
             Inl e \<Rightarrow> Inl e
           | Inr (inst, st1) \<Rightarrow>
               (case resolve_account user_id r st1 inst inst_nm of
                  Inl e \<Rightarrow> Inl e
                | Inr (a, st2) \<Rightarrow>
                    (case resolve_category st2 (row_category_name (category_name r)) of
                       Inl e \<Rightarrow> Inl e
                     | Inr (c, st3) \<Rightarrow>
                         (case parse_dates fromiso r of
                            Inl e \<Rightarrow> Inl e
                          | Inr (d, od) \<Rightarrow> stage_txn jid st3 a c d od r)))))"

subsection \<open>Parser selection\<close>

text \<open>
  A registered parser plugin: its name, \<open>detect\<close> and \<open>parse\<close>. The registry is the list
  of plugins in registration order.
\<close>

record parser_plugin =
  parser_name :: string
  detect :: "string \<Rightarrow> string \<Rightarrow> pyexc + bool"
  parse_file :: "string \<Rightarrow> string \<Rightarrow> pyexc + row list"

fun find_parser :: "parser_plugin list \<Rightarrow> string \<Rightarrow> string \<Rightarrow> pyexc + parser_plugin option" where
  "find_parser [] file_content filename = Inr None"
| "find_parser (p # ps) file_content filename =
     (case detect p file_content filename of
        Inl e \<Rightarrow> Inl e
      | Inr found \<Rightarrow> if found then Inr (Some p) else find_parser ps file_content filename)"

definition new_job :: "uuid \<Rightarrow> uuid \<Rightarrow> string \<Rightarrow> string \<Rightarrow> import_status \<Rightarrow> import_job" where
  "new_job jid user_id filename src_type st =
     \<lparr> job_id = jid, job_user_id = user_id, job_filename = filename,
       job_source_type = src_type, job_status = st, total_rows = 0, imported_rows = 0,
       duplicate_rows = 0, processed_rows = 0, categorized_rows = 0, uncategorized_rows = 0,
       error_message = None, completed_at_set = False, job_source = ''upload'' \<rparr>"

definition add_job :: "import_job \<Rightarrow> session \<Rightarrow> session" where
  "add_job j s = s\<lparr> working := put_job j (working s) \<rparr>"

definition initial_loop_state :: "session \<Rightarrow> loop_state" where
  "initial_loop_state s =
     \<lparr> sess = s, inst_cache = Map.empty, acct_cache = Map.empty, cat_cache = Map.empty,
       imported = 0, duplicates = 0 \<rparr>"

subsection \<open>run\_import: one transaction for the whole run\<close>

fun import_rows ::
  "(string \<Rightarrow> pyexc + pydate) \<Rightarrow> uuid option \<Rightarrow> uuid \<Rightarrow> row list \<Rightarrow> loop_state \<Rightarrow>
   pyexc + loop_state" where
  "import_rows fromiso user_id jid [] st = Inr st"
| "import_rows fromiso user_id jid (r # rs) st =
     (case process_row fromiso user_id jid r st of
        Inl e \<Rightarrow> Inl e
      | Inr st' \<Rightarrow> import_rows fromiso user_id jid rs st')"

text \<open>
  The body of the \<open>try\<close>. On an exception it returns the exception and the job object as it
  is in memory; on success the job and the committed session.
\<close>

definition try_import ::
  "(string \<Rightarrow> pyexc + pydate) \<Rightarrow> parser_plugin \<Rightarrow> session \<Rightarrow> import_job \<Rightarrow> uuid \<Rightarrow>
   string \<Rightarrow> string \<Rightarrow> pyexc \<times> import_job + import_job \<times> session" where
  "try_import fromiso p s job user_id filename file_content =
     (case parse_file p file_content filename of
        Inl e \<Rightarrow> Inl (e, job)
      | Inr parsed \<Rightarrow>
          let job1 = job\<lparr> total_rows := length parsed \<rparr> in
          (case import_rows fromiso (Some user_id) (job_id job) parsed (initial_loop_state s) of
             Inl e \<Rightarrow> Inl (e, job1)
           | Inr st \<Rightarrow>
               let job2 = job1\<lparr> imported_rows := imported st,
                                duplicate_rows := duplicates st,
                                job_status := COMPLETED,
                                completed_at_set := True \<rparr>
               in Inr (job2, commit (add_job job2 (sess st)))))"

text \<open>The job record created for a matched parser, added to the session and flushed.\<close>

definition start_job :: "session \<Rightarrow> uuid \<Rightarrow> string \<Rightarrow> parser_plugin \<Rightarrow> import_job \<times> session" where
  "start_job s user_id filename p =
     (let job = new_job (next_id s) user_id filename (parser_name p) PROCESSING
      in (job, add_job job (s\<lparr> next_id := Suc (next_id s) \<rparr>)))"

definition run_import ::
  "(string \<Rightarrow> pyexc + pydate) \<Rightarrow> parser_plugin list \<Rightarrow> session \<Rightarrow> uuid \<Rightarrow> string \<Rightarrow> string \<Rightarrow>
   pyexc + import_job \<times> session" where
  "run_import fromiso parsers s user_id filename file_content =
     (case find_parser parsers file_content filename of
        Inl e \<Rightarrow> Inl e
      | Inr None \<Rightarrow>
          let job = (new_job (next_id s) user_id filename ''unknown'' FAILED)
                      \<lparr> error_message := Some ''No parser found for this file format'' \<rparr>
          in Inr (job, commit (add_job job (s\<lparr> next_id := Suc (next_id s) \<rparr>)))
      | Inr (Some p) \<Rightarrow>
          (case start_job s user_id filename p of
             (job, s1) \<Rightarrow>
               (case try_import fromiso p s1 job user_id filename file_content of
                  Inr (job', s') \<Rightarrow> Inr (job', s')
                | Inl (e, job_mem) \<Rightarrow>
                    let job' = job_mem\<lparr> job_status := FAILED,
                                        error_message := Some (take 1000 (exc_text e)) \<rparr>
                    in Inr (job', commit (add_job job' (rollback s1))))))"

subsection \<open>run\_import\_sync: commits at every 100-row checkpoint\<close>

definition update_job :: "uuid \<Rightarrow> (import_job \<Rightarrow> import_job) \<Rightarrow> session \<Rightarrow> session" where
  "update_job jid f s =
     s\<lparr> working := (working s)
          \<lparr> jobs := map (\<lambda>j. if job_id j = jid then f j else j) (jobs (working s)) \<rparr> \<rparr>"

text \<open>\<open>job.processed_rows = i + 1; db.commit()\<close> (\<open>Suc i\<close> is \<open>i + 1\<close>).\<close>

definition checkpoint :: "uuid \<Rightarrow> nat \<Rightarrow> loop_state \<Rightarrow> loop_state" where
  "checkpoint jid n st =
     st\<lparr> sess := commit (update_job jid (\<lambda>j. j\<lparr> processed_rows := n \<rparr>) (sess st)) \<rparr>"

text \<open>
  The loop with its row index. On an exception it returns the index of the failing row, the
  exception and the state before that row.
\<close>

fun import_rows_sync ::
  "(string \<Rightarrow> pyexc + pydate) \<Rightarrow> uuid option \<Rightarrow> uuid \<Rightarrow> bool \<Rightarrow> nat \<Rightarrow> row list \<Rightarrow> loop_state \<Rightarrow>
   nat \<times> pyexc \<times> loop_state + loop_state" where
  "import_rows_sync fromiso user_id jid on_progress i [] st = Inr st"
| "import_rows_sync fromiso user_id jid on_progress i (r # rs) st =
     (case process_row fromiso user_id jid r st of
        Inl e \<Rightarrow> Inl (i, e, st)
      | Inr st' \<Rightarrow>
          import_rows_sync fromiso user_id jid on_progress (Suc i) rs
            (if on_progress \<and> Suc i mod 100 = 0 then checkpoint jid (Suc i) st' else st'))"

text \<open>
  The body of the \<open>try\<close>. On an exception it returns the number of rows processed before it
  (0 when \<open>parse\<close> itself raises), the exception and the session at that point.
\<close>

definition try_import_sync ::
  "(string \<Rightarrow> pyexc + pydate) \<Rightarrow> parser_plugin \<Rightarrow> session \<Rightarrow> uuid \<Rightarrow> uuid \<Rightarrow> bool \<Rightarrow>
   string \<Rightarrow> string \<Rightarrow> nat \<times> pyexc \<times> session + session" where
  "try_import_sync fromiso p s jid user_id on_progress filename file_content =
     (case parse_file p file_content filename of
        Inl e \<Rightarrow> Inl (0, e, s)
      | Inr parsed \<Rightarrow>
          let s1 = commit (update_job jid (\<lambda>j. j\<lparr> total_rows := length parsed \<rparr>) s) in
          (case import_rows_sync fromiso (Some user_id) jid on_progress 0 parsed
                  (initial_loop_state s1) of
             Inl (i, e, st) \<Rightarrow> Inl (i, e, sess st)
           | Inr st \<Rightarrow>
               Inr (commit (update_job jid
                      (\<lambda>j. j\<lparr> processed_rows := length parsed,
                               imported_rows := imported st,
                               duplicate_rows := duplicates st \<rparr>) (sess st)))))"

definition fail_job :: "uuid \<Rightarrow> string \<Rightarrow> session \<Rightarrow> session" where
  "fail_job jid msg s =
     commit (update_job jid (\<lambda>j. j\<lparr> job_status := FAILED, error_message := Some msg \<rparr>) s)"

text \<open>\<open>job.source_type = parser.name; job.status = PROCESSING; db.commit()\<close>.\<close>

definition start_processing :: "session \<Rightarrow> uuid \<Rightarrow> parser_plugin \<Rightarrow> session" where
  "start_processing s jid p =
     commit (update_job jid
       (\<lambda>j. j\<lparr> job_source_type := parser_name p, job_status := PROCESSING \<rparr>) s)"

definition run_import_sync ::
  "(string \<Rightarrow> pyexc + pydate) \<Rightarrow> parser_plugin list \<Rightarrow> session \<Rightarrow> uuid \<Rightarrow> string \<Rightarrow> string \<Rightarrow>
   uuid \<Rightarrow> bool \<Rightarrow> pyexc + session" where
  "run_import_sync fromiso parsers s user_id filename file_content jid on_progress =
     (case find_parser parsers file_content filename of
        Inl e \<Rightarrow> Inl e
      | Inr found \<Rightarrow>
          (case get_job (working s) jid of
             None \<Rightarrow> Inl (OtherError ''No row was found when one was required'')
           | Some job \<Rightarrow>
               (case found of
                  None \<Rightarrow> Inr (fail_job jid ''No parser found for this file format'' s)
                | Some p \<Rightarrow>
                    (case try_import_sync fromiso p (start_processing s jid p) jid user_id
                            on_progress filename file_content of
                       Inr s' \<Rightarrow> Inr s'
                     | Inl (i, e, s_fail) \<Rightarrow>
                         Inr (fail_job jid (take 1000 (exc_text e)) (rollback s_fail))))))"

subsection \<open>Invariants of the import loop\<close>

text \<open>
  \<open>cat_cache_ok\<close>: every cached category is stored under its own name. \<open>txn_of_row\<close>: a
  staged transaction belongs to the job, carries the amount and description of its row and
  is linked to a stored category named as the row's category (or "Uncategorized").
  \<open>same_job\<close>: two job records that differ at most in \<open>processed_rows\<close>.
\<close>

definition cat_cache_ok :: "loop_state \<Rightarrow> bool" where
  "cat_cache_ok st = (\<forall>n c. cat_cache st n = Some c \<longrightarrow>
      cat_name c = n \<and> c \<in> set (categories (working (sess st))))"

definition txn_of_row :: "uuid \<Rightarrow> row \<Rightarrow> category list \<Rightarrow> txn \<Rightarrow> bool" where
  "txn_of_row jid r cs t =
     (txn_import_job_id t = Some jid \<and>
      amount_cents r = Some (txn_amount_cents t) \<and>
      description r = Some (txn_description t) \<and>
      (\<exists>c \<in> set cs. txn_category_id t = Some (cat_id c) \<and>
                     cat_name c = row_category_name (category_name r)))"

definition same_job :: "import_job \<Rightarrow> import_job \<Rightarrow> bool" where
  "same_job j j' = (j'\<lparr> processed_rows := processed_rows j \<rparr> = j)"

section \<open>Properties\<close>

subsection \<open>Evaluation of the text primitives\<close>

lemma py_in_Nil: "py_in [] s"
  by (simp add: py_in_def)


lemma py_strip_zero: "py_strip ''0'' = ''0''"
  by (simp add: py_strip_def py_isspace_def code_point_def)

lemma parse_number_zero: "parse_number False ''0'' = Some (Fin 0 0)"
  by (simp add: parse_number_def is_digit_def code_point_def parse_exponent_def digits_val_def
      round_binary64_def)

lemma py_float_zero: "py_float ''0'' = Some (Fin 0 0)"
  by (simp add: py_float_def float_strip_def float_isspace_def parse_number_zero is_digit_def
      code_point_def py_lower_def lower_char_def)

lemma rocket_amount_cents_zero: "rocket_amount_cents ''0'' = Inr 0"
  by (simp add: rocket_amount_cents_def py_float_zero round_binary64_def)

subsection \<open>The transfer flag of the fixed-format parser\<close>

lemma py_strip_internal_transfers: "py_strip ''Internal Transfers'' = ''Internal Transfers''"
  by (simp add: py_strip_def py_isspace_def code_point_def)

lemma py_strip_savings_transfer: "py_strip ''Savings Transfer'' = ''Savings Transfer''"
  by (simp add: py_strip_def py_isspace_def code_point_def)

text \<open>
  Claim C7, as stated: \<open>is_transfer\<close> is true exactly for the categories
  "Savings Transfer" and "Credit Card Payment". It fails: \<open>TRANSFER_CATEGORIES\<close> has a third
  member, and a row whose category is "Internal Transfers" is flagged as a transfer.
\<close>

theorem C7_internal_transfers_counterexample:
  "rocket_parse_row (map_of [(''Category'', ''Internal Transfers'')]) =
     Inr (projr (rocket_parse_row (map_of [(''Category'', ''Internal Transfers'')]))) \<and>
   category_name (projr (rocket_parse_row (map_of [(''Category'', ''Internal Transfers'')]))) =
     Val ''Internal Transfers'' \<and>
   is_transfer (projr (rocket_parse_row (map_of [(''Category'', ''Internal Transfers'')]))) =
     Some True \<and>
   ''Internal Transfers'' \<notin> {''Savings Transfer'', ''Credit Card Payment''}"
  by (simp add: rocket_parse_row_def cell_def py_strip_zero rocket_amount_cents_zero
      py_strip_internal_transfers TRANSFER_CATEGORIES_def Let_def)

text \<open>
  Claim C7, amended: for every row the fixed-format parser returns, \<open>category_name\<close> is the
  stripped text of the Category cell and \<open>is_transfer\<close> is true exactly when that text is
  "Credit Card Payment", "Internal Transfers" or "Savings Transfer".
\<close>

theorem C7_is_transfer_iff_transfer_category:
  "rocket_parse_row r = Inr x \<Longrightarrow>
     category_name x = Val (py_strip (cell r ''Category'' [])) \<and>
     is_transfer x = Some (py_strip (cell r ''Category'' []) \<in>
        {''Credit Card Payment'', ''Internal Transfers'', ''Savings Transfer''})"
  unfolding rocket_parse_row_def TRANSFER_CATEGORIES_def Let_def
  by (cases "rocket_amount_cents (py_strip (cell r ''Amount'' ''0''))") auto

theorem C7_is_transfer_witness:
  "rocket_parse_row (map_of [(''Category'', ''Savings Transfer'')]) =
     Inr (projr (rocket_parse_row (map_of [(''Category'', ''Savings Transfer'')]))) \<and>
   is_transfer (projr (rocket_parse_row (map_of [(''Category'', ''Savings Transfer'')]))) =
     Some True \<and>
   rocket_parse_row (map_of [(''Category'', ''Groceries'')]) =
     Inr (projr (rocket_parse_row (map_of [(''Category'', ''Groceries'')]))) \<and>
   is_transfer (projr (rocket_parse_row (map_of [(''Category'', ''Groceries'')]))) =
     Some False"
proof -
  have a: "rocket_parse_row (map_of [(''Category'', ''Savings Transfer'')]) =
     Inr (projr (rocket_parse_row (map_of [(''Category'', ''Savings Transfer'')])))"
    by (simp add: rocket_parse_row_def cell_def py_strip_zero rocket_amount_cents_zero Let_def)
  have b: "rocket_parse_row (map_of [(''Category'', ''Groceries'')]) =
     Inr (projr (rocket_parse_row (map_of [(''Category'', ''Groceries'')])))"
    by (simp add: rocket_parse_row_def cell_def py_strip_zero rocket_amount_cents_zero Let_def)
  have c: "py_strip ''Groceries'' = ''Groceries''"
    by (simp add: py_strip_def py_isspace_def code_point_def)
  show ?thesis
    using a b C7_is_transfer_iff_transfer_category [OF a]
      C7_is_transfer_iff_transfer_category [OF b]
    by (simp add: cell_def py_strip_savings_transfer c)
qed

subsection \<open>Detection rules of the schema-based parser\<close>





lemma schema_detect_some_schema:
  "schema_detect lib ss c f = Inr True \<Longrightarrow>
   \<exists>s \<in> set ss. check_rules lib (rules s) c f = Inr True"
  by (induction ss) (auto simp: schema_detect_def split: sum.splits if_splits)




subsection \<open>Amount conversion\<close>

lemmas rb_eval = round_binary64_def ilog2q_def compute_floorlog rhe_def Let_def



lemma round_binary64_450_product:
  "round_binary64 False 506654958079180800 1125899906842624 = Fin 7916483719987200 (- 44)"
  by (simp add: rb_eval)




lemma round_binary64_450_by_100:
  "round_binary64 False 35652673131418951917094777651200 79228162514264337593543950336
     = Fin 7916483719987200 (- 44)"
  by (simp add: rb_eval)








lemma py_round_4_50: "py_round (fmul (Fin 5066549580791808 (- 50)) (Fin 100 0)) = Inr 450"
  by (simp add: round_binary64_450_product rhe_def Let_def)

lemma py_round_4_50_by_100:
  "py_round (fmul (Fin 5066549580791808 (- 50)) (Fin 7036874417766400 (- 46))) = Inr 450"
  by (simp add: round_binary64_450_by_100 rhe_def Let_def)














lemma apply_date_other: "k \<noteq> ''date'' \<Longrightarrow> apply_date lib tr rec k = rec k"
  by (auto simp: apply_date_def split: option.splits pyval.splits)

lemma foldl_defaults_other:
  "k \<notin> fst ` set ds \<Longrightarrow>
   foldl (\<lambda>rc (fld, dflt).
            if (case rc fld of None \<Rightarrow> False | Some v \<Rightarrow> truthy v) then rc
            else rc(fld \<mapsto> dflt)) rec ds k = rec k"
  by (induction ds arbitrary: rec) (auto split: prod.splits)

lemma apply_defaults_other:
  "k \<notin> fst ` set (case defaults tr of None \<Rightarrow> [] | Some ds \<Rightarrow> ds) \<Longrightarrow>
   apply_defaults tr rec k = rec k"
  unfolding apply_defaults_def by (rule foldl_defaults_other)

lemma schema_row_amount:
  assumes "map_columns (column_mapping sch) r ''amount_cents'' = Some (PStr s)"
    and "''amount_cents'' \<notin>
           fst ` set (case defaults (transform sch) of None \<Rightarrow> [] | Some ds \<Rightarrow> ds)"
    and "schema_parse_row lib sch r = Inr rec"
  shows "\<exists>n. schema_amount_cents (amount_multiplier (transform sch)) s = Inr n \<and>
             rec ''amount_cents'' = Some (PInt n)"
  using assms
  by (auto simp: schema_parse_row_def apply_amount_def apply_defaults_other apply_date_other
      split: sum.splits)








































































































lemma rhe_tie_even: "0 < b \<Longrightarrow> 2 * (a mod b) = b \<Longrightarrow> even (rhe a b)"
  by (simp add: rhe_def Let_def)

















subsection \<open>The import loop\<close>

lemma scalar_one_or_none_Some:
  "scalar_one_or_none xs = Inr (Some x) \<Longrightarrow> xs = [x]"
  by (cases xs rule: scalar_one_or_none.cases) auto

lemma scalar_one_or_none_None:
  "scalar_one_or_none xs = Inr None \<Longrightarrow> xs = []"
  by (cases xs rule: scalar_one_or_none.cases) auto

lemma resolve_institution_frame:
  assumes "resolve_institution st n = Inr (i, st')"
  shows "committed (sess st') = committed (sess st)"
    and "transactions (working (sess st')) = transactions (working (sess st))"
    and "categories (working (sess st')) = categories (working (sess st))"
    and "jobs (working (sess st')) = jobs (working (sess st))"
    and "cat_cache st' = cat_cache st"
    and "imported st' = imported st" and "duplicates st' = duplicates st"
  using assms
  by (auto simp: resolve_institution_def get_or_create_institution_def Let_def
      split: option.splits sum.splits)

lemma resolve_account_frame:
  assumes "resolve_account u r st i n = Inr (a, st')"
  shows "committed (sess st') = committed (sess st)"
    and "transactions (working (sess st')) = transactions (working (sess st))"
    and "categories (working (sess st')) = categories (working (sess st))"
    and "jobs (working (sess st')) = jobs (working (sess st))"
    and "cat_cache st' = cat_cache st"
    and "imported st' = imported st" and "duplicates st' = duplicates st"
  using assms
  by (auto simp: resolve_account_def get_or_create_account_def Let_def
      split: option.splits sum.splits)

lemma resolve_category_frame:
  assumes "resolve_category st n = Inr (c, st')"
  shows "committed (sess st') = committed (sess st)"
    and "transactions (working (sess st')) = transactions (working (sess st))"
    and "jobs (working (sess st')) = jobs (working (sess st))"
    and "imported st' = imported st" and "duplicates st' = duplicates st"
    and "set (categories (working (sess st))) \<subseteq> set (categories (working (sess st')))"
  using assms
  by (auto simp: resolve_category_def get_or_create_category_def Let_def
      split: option.splits sum.splits)

lemma resolve_category_ok:
  assumes "resolve_category st n = Inr (c, st')" and "cat_cache_ok st"
  shows "cat_cache_ok st' \<and> cat_name c = n \<and> c \<in> set (categories (working (sess st')))"
proof (cases "cat_cache st n")
  case (Some c')
  with assms show ?thesis by (auto simp: resolve_category_def cat_cache_ok_def)
next
  case None
  show ?thesis
  proof (cases "scalar_one_or_none (filter (\<lambda>c. cat_name c = n) (categories (working (sess st))))")
    case (Inl e)
    with None assms show ?thesis
      by (simp add: resolve_category_def get_or_create_category_def)
  next
    case (Inr found)
    show ?thesis
    proof (cases found)
      case None2: None
      with None Inr assms show ?thesis
        by (auto simp: resolve_category_def get_or_create_category_def Let_def cat_cache_ok_def
            split: if_splits)
    next
      case (Some c')
      with Inr have "filter (\<lambda>c. cat_name c = n) (categories (working (sess st))) = [c']"
        by (simp add: scalar_one_or_none_Some)
      then have "c' \<in> set (filter (\<lambda>c. cat_name c = n) (categories (working (sess st))))"
        by simp
      then have "cat_name c' = n \<and> c' \<in> set (categories (working (sess st)))" by simp
      with None Inr Some assms show ?thesis
        by (auto simp: resolve_category_def get_or_create_category_def cat_cache_ok_def
            split: if_splits)
    qed
  qed
qed

lemma stage_txn_effect:
  assumes "stage_txn jid st a c d od r = Inr st'"
  shows "committed (sess st') = committed (sess st)"
    and "categories (working (sess st')) = categories (working (sess st))"
    and "jobs (working (sess st')) = jobs (working (sess st))"
    and "cat_cache st' = cat_cache st"
    and "(duplicates st' = duplicates st + 1 \<and> imported st' = imported st \<and>
          transactions (working (sess st')) = transactions (working (sess st))) \<or>
         (imported st' = imported st + 1 \<and> duplicates st' = duplicates st \<and>
          (\<exists>t. transactions (working (sess st')) = transactions (working (sess st)) @ [t] \<and>
               txn_import_job_id t = Some jid \<and>
               amount_cents r = Some (txn_amount_cents t) \<and>
               description r = Some (txn_description t) \<and>
               txn_category_id t = Some (cat_id c)))"
  using assms
  by (auto simp: stage_txn_def require_def new_txn_def Let_def
      split: option.splits sum.splits if_splits)

lemma process_row_effect:
  assumes "process_row f u jid r st = Inr st'" and "cat_cache_ok st"
  shows "cat_cache_ok st'"
    and "committed (sess st') = committed (sess st)"
    and "jobs (working (sess st')) = jobs (working (sess st))"
    and "set (categories (working (sess st))) \<subseteq> set (categories (working (sess st')))"
    and "(duplicates st' = duplicates st + 1 \<and> imported st' = imported st \<and>
          transactions (working (sess st')) = transactions (working (sess st))) \<or>
         (imported st' = imported st + 1 \<and> duplicates st' = duplicates st \<and>
          (\<exists>t. transactions (working (sess st')) = transactions (working (sess st)) @ [t] \<and>
               txn_of_row jid r (categories (working (sess st'))) t))"
proof -
  from assms(1) obtain inst_nm inst st1 a st2 c st3 d od where
    i: "resolve_institution st inst_nm = Inr (inst, st1)" and
    a: "resolve_account u r st1 inst inst_nm = Inr (a, st2)" and
    c: "resolve_category st2 (row_category_name (category_name r)) = Inr (c, st3)" and
    s: "stage_txn jid st3 a c d od r = Inr st'"
    by (auto simp: process_row_def split: sum.splits prod.splits)
  note fi = resolve_institution_frame [OF i]
  note fa = resolve_account_frame [OF a]
  note fc = resolve_category_frame [OF c]
  note fs = stage_txn_effect [OF s]
  from assms(2) fi fa have ok2: "cat_cache_ok st2"
    by (simp add: cat_cache_ok_def)
  from resolve_category_ok [OF c ok2]
  have ok3: "cat_cache_ok st3" and cn: "cat_name c = row_category_name (category_name r)"
    and cin: "c \<in> set (categories (working (sess st3)))"
    by auto
  from ok3 fs show "cat_cache_ok st'" by (simp add: cat_cache_ok_def)
  from fi fa fc fs show "committed (sess st') = committed (sess st)" by simp
  from fi fa fc fs show "jobs (working (sess st')) = jobs (working (sess st))" by simp
  from fi fa fc fs
  show "set (categories (working (sess st))) \<subseteq> set (categories (working (sess st')))"
    by simp
  from fs(5) fi fa fc fs(2) cn cin
  show "(duplicates st' = duplicates st + 1 \<and> imported st' = imported st \<and>
          transactions (working (sess st')) = transactions (working (sess st))) \<or>
         (imported st' = imported st + 1 \<and> duplicates st' = duplicates st \<and>
          (\<exists>t. transactions (working (sess st')) = transactions (working (sess st)) @ [t] \<and>
               txn_of_row jid r (categories (working (sess st'))) t))"
    unfolding txn_of_row_def by auto
qed

lemma same_job_refl: "same_job j j"
  by (simp add: same_job_def)

lemma same_job_trans: "same_job a b \<Longrightarrow> same_job b c \<Longrightarrow> same_job a c"
  unfolding same_job_def by (metis import_job.update_convs(9) import_job.surjective)

lemma txn_of_row_mono:
  "txn_of_row jid r cs t \<Longrightarrow> set cs \<subseteq> set cs' \<Longrightarrow> txn_of_row jid r cs' t"
  unfolding txn_of_row_def by blast

lemma import_rows_effect:
  assumes "import_rows f u jid rows st = Inr st'" and "cat_cache_ok st"
  shows "cat_cache_ok st' \<and>
     committed (sess st') = committed (sess st) \<and>
     jobs (working (sess st')) = jobs (working (sess st)) \<and>
     set (categories (working (sess st))) \<subseteq> set (categories (working (sess st'))) \<and>
     imported st' + duplicates st' = imported st + duplicates st + length rows \<and>
     (\<exists>staged. transactions (working (sess st')) = transactions (working (sess st)) @ staged \<and>
        imported st' = imported st + length staged \<and>
        (\<forall>t \<in> set staged. \<exists>r \<in> set rows.
            txn_of_row jid r (categories (working (sess st'))) t))"
  using assms
proof (induction rows arbitrary: st)
  case Nil
  then show ?case by simp
next
  case (Cons r rows)
  from Cons.prems(1) obtain st1 where
    p: "process_row f u jid r st = Inr st1" and
    l: "import_rows f u jid rows st1 = Inr st'"
    by (auto split: sum.splits)
  note e = process_row_effect [OF p Cons.prems(2)]
  note ih = Cons.IH [OF l e(1)]
  from ih obtain staged where
    st: "transactions (working (sess st')) = transactions (working (sess st1)) @ staged"
      "imported st' = imported st1 + length staged"
      "\<forall>t \<in> set staged. \<exists>r \<in> set rows. txn_of_row jid r (categories (working (sess st'))) t"
    by blast
  from ih have sub: "set (categories (working (sess st1))) \<subseteq> set (categories (working (sess st')))"
    by blast
  from e(5) show ?case
  proof
    assume d: "duplicates st1 = duplicates st + 1 \<and> imported st1 = imported st \<and>
          transactions (working (sess st1)) = transactions (working (sess st))"
    with st have "transactions (working (sess st')) = transactions (working (sess st)) @ staged \<and>
        imported st' = imported st + length staged \<and>
        (\<forall>t \<in> set staged. \<exists>r' \<in> set (r # rows).
            txn_of_row jid r' (categories (working (sess st'))) t)"
      by auto
    with ih e d show ?thesis by auto
  next
    assume i: "imported st1 = imported st + 1 \<and> duplicates st1 = duplicates st \<and>
          (\<exists>t. transactions (working (sess st1)) = transactions (working (sess st)) @ [t] \<and>
               txn_of_row jid r (categories (working (sess st1))) t)"
    then obtain t where t: "transactions (working (sess st1)) = transactions (working (sess st)) @ [t]"
      "txn_of_row jid r (categories (working (sess st1))) t"
      by blast
    from t(2) sub have "txn_of_row jid r (categories (working (sess st'))) t"
      by (rule txn_of_row_mono)
    with st t i have "transactions (working (sess st')) = transactions (working (sess st)) @ (t # staged) \<and>
        imported st' = imported st + length (t # staged) \<and>
        (\<forall>t' \<in> set (t # staged). \<exists>r' \<in> set (r # rows).
            txn_of_row jid r' (categories (working (sess st'))) t')"
      by auto
    with ih e i show ?thesis by (auto simp del: set_ConsD)
  qed
qed

lemma process_row_frame:
  assumes "process_row f u jid r st = Inr st'"
  shows "committed (sess st') = committed (sess st)"
    and "jobs (working (sess st')) = jobs (working (sess st))"
proof -
  from assms obtain inst_nm inst st1 a st2 c st3 d od where
    i: "resolve_institution st inst_nm = Inr (inst, st1)" and
    a: "resolve_account u r st1 inst inst_nm = Inr (a, st2)" and
    c: "resolve_category st2 (row_category_name (category_name r)) = Inr (c, st3)" and
    s: "stage_txn jid st3 a c d od r = Inr st'"
    by (auto simp: process_row_def split: sum.splits prod.splits)
  note fi = resolve_institution_frame [OF i]
  note fa = resolve_account_frame [OF a]
  note fc = resolve_category_frame [OF c]
  note fs = stage_txn_effect [OF s]
  from fi fa fc fs show "committed (sess st') = committed (sess st)" by simp
  from fi fa fc fs show "jobs (working (sess st')) = jobs (working (sess st))" by simp
qed

lemma same_job_processed: "same_job j (j\<lparr> processed_rows := n \<rparr>)"
  by (simp add: same_job_def)

lemma list_all2_same_job_update:
  "list_all2 same_job js (map (\<lambda>j. if job_id j = jid then j\<lparr> processed_rows := n \<rparr> else j) js)"
  by (induction js) (auto simp: same_job_processed same_job_refl)

lemma list_all2_same_job_trans:
  "list_all2 same_job xs ys \<Longrightarrow> list_all2 same_job ys zs \<Longrightarrow> list_all2 same_job xs zs"
  by (rule list_all2_trans [where ?P1.0 = same_job and ?P2.0 = same_job])
     (auto intro: same_job_trans)

lemma checkpoint_effect:
  "cat_cache (checkpoint jid n st) = cat_cache st"
  "categories (working (sess (checkpoint jid n st))) = categories (working (sess st))"
  "transactions (working (sess (checkpoint jid n st))) = transactions (working (sess st))"
  "imported (checkpoint jid n st) = imported st"
  "duplicates (checkpoint jid n st) = duplicates st"
  "committed (sess (checkpoint jid n st)) = working (sess (checkpoint jid n st))"
  "list_all2 same_job (jobs (working (sess st))) (jobs (working (sess (checkpoint jid n st))))"
  by (simp_all add: checkpoint_def commit_def update_job_def list_all2_same_job_update)

lemma checkpoint_cat_cache_ok: "cat_cache_ok st \<Longrightarrow> cat_cache_ok (checkpoint jid n st)"
  by (simp add: cat_cache_ok_def checkpoint_effect)

lemma import_rows_sync_effect:
  assumes "import_rows_sync f u jid op i rows st = Inr st'" and "cat_cache_ok st"
  shows "cat_cache_ok st' \<and>
     list_all2 same_job (jobs (working (sess st))) (jobs (working (sess st'))) \<and>
     set (categories (working (sess st))) \<subseteq> set (categories (working (sess st'))) \<and>
     imported st' + duplicates st' = imported st + duplicates st + length rows \<and>
     (\<exists>staged. transactions (working (sess st')) = transactions (working (sess st)) @ staged \<and>
        imported st' = imported st + length staged \<and>
        (\<forall>t \<in> set staged. \<exists>r \<in> set rows.
            txn_of_row jid r (categories (working (sess st'))) t))"
  using assms
proof (induction rows arbitrary: st i)
  case Nil
  then show ?case by (simp add: list_all2_refl same_job_refl)
next
  case (Cons r rows)
  define nx where "nx st1 = (if op \<and> Suc i mod 100 = 0 then checkpoint jid (Suc i) st1 else st1)"
    for st1
  from Cons.prems(1) obtain st1 where
    p: "process_row f u jid r st = Inr st1" and
    l: "import_rows_sync f u jid op (Suc i) rows (nx st1) = Inr st'"
    by (auto simp: nx_def split: sum.splits)
  note e = process_row_effect [OF p Cons.prems(2)]
  have nx_facts: "cat_cache_ok (nx st1)"
    "categories (working (sess (nx st1))) = categories (working (sess st1))"
    "transactions (working (sess (nx st1))) = transactions (working (sess st1))"
    "imported (nx st1) = imported st1" "duplicates (nx st1) = duplicates st1"
    "list_all2 same_job (jobs (working (sess st1))) (jobs (working (sess (nx st1))))"
    using e(1)
    by (auto simp: nx_def checkpoint_effect checkpoint_cat_cache_ok list_all2_refl same_job_refl)
  note ih = Cons.IH [OF l nx_facts(1)]
  from ih obtain staged where
    st: "transactions (working (sess st')) = transactions (working (sess st1)) @ staged"
      "imported st' = imported st1 + length staged"
      "\<forall>t \<in> set staged. \<exists>r \<in> set rows. txn_of_row jid r (categories (working (sess st'))) t"
    using nx_facts by auto
  from ih nx_facts
  have sub: "set (categories (working (sess st1))) \<subseteq> set (categories (working (sess st')))"
    by auto
  from ih nx_facts e(3)
  have jb: "list_all2 same_job (jobs (working (sess st))) (jobs (working (sess st')))"
    by (auto intro: list_all2_same_job_trans)
  from ih nx_facts have cnt: "imported st' + duplicates st' = imported st1 + duplicates st1 + length rows"
    by auto
  from ih have ok: "cat_cache_ok st'" by blast
  from e(5) show ?case
  proof
    assume d: "duplicates st1 = duplicates st + 1 \<and> imported st1 = imported st \<and>
          transactions (working (sess st1)) = transactions (working (sess st))"
    with st have "transactions (working (sess st')) = transactions (working (sess st)) @ staged \<and>
        imported st' = imported st + length staged \<and>
        (\<forall>t \<in> set staged. \<exists>r' \<in> set (r # rows).
            txn_of_row jid r' (categories (working (sess st'))) t)"
      by auto
    with ok jb sub e(4) cnt d show ?thesis by auto
  next
    assume im: "imported st1 = imported st + 1 \<and> duplicates st1 = duplicates st \<and>
          (\<exists>t. transactions (working (sess st1)) = transactions (working (sess st)) @ [t] \<and>
               txn_of_row jid r (categories (working (sess st1))) t)"
    then obtain t where t: "transactions (working (sess st1)) = transactions (working (sess st)) @ [t]"
      "txn_of_row jid r (categories (working (sess st1))) t"
      by blast
    from t(2) sub have "txn_of_row jid r (categories (working (sess st'))) t"
      by (rule txn_of_row_mono)
    with st t im have "transactions (working (sess st')) = transactions (working (sess st)) @ (t # staged) \<and>
        imported st' = imported st + length (t # staged) \<and>
        (\<forall>t' \<in> set (t # staged). \<exists>r' \<in> set (r # rows).
            txn_of_row jid r' (categories (working (sess st'))) t')"
      by auto
    with ok jb sub e(4) cnt im show ?thesis by (auto simp del: set_ConsD)
  qed
qed

lemma import_rows_sync_fail:
  assumes "import_rows_sync f u jid op i rows st = Inl (k, e, stf)"
  shows "i \<le> k \<and>
     (\<not> op \<or> (\<forall>n. i < n \<and> n \<le> k \<longrightarrow> n mod 100 \<noteq> 0) \<longrightarrow>
         committed (sess stf) = committed (sess st)) \<and>
     (list_all2 same_job J (jobs (working (sess st))) \<longrightarrow>
      list_all2 same_job J (jobs (committed (sess st))) \<longrightarrow>
         list_all2 same_job J (jobs (committed (sess stf))))"
  using assms
proof (induction rows arbitrary: st i)
  case Nil
  then show ?case by simp
next
  case (Cons r rows)
  define nx where "nx st1 = (if op \<and> Suc i mod 100 = 0 then checkpoint jid (Suc i) st1 else st1)"
    for st1
  show ?case
  proof (cases "process_row f u jid r st")
    case (Inl x)
    with Cons.prems show ?thesis by simp
  next
    case (Inr st1)
    with Cons.prems have l: "import_rows_sync f u jid op (Suc i) rows (nx st1) = Inl (k, e, stf)"
      by (simp add: nx_def split del: if_split)
    note ih = Cons.IH [OF l]
    note fr = process_row_frame [OF Inr]
    from ih have ik: "Suc i \<le> k" by blast
    have a: "committed (sess stf) = committed (sess st)"
      if h: "\<not> op \<or> (\<forall>n. i < n \<and> n \<le> k \<longrightarrow> n mod 100 \<noteq> 0)"
    proof -
      from h ik have nock: "\<not> (op \<and> Suc i mod 100 = 0)" by auto
      then have "nx st1 = st1" by (auto simp: nx_def)
      moreover from h have "\<not> op \<or> (\<forall>n. Suc i < n \<and> n \<le> k \<longrightarrow> n mod 100 \<noteq> 0)" by auto
      with ih have "committed (sess stf) = committed (sess (nx st1))" by blast
      ultimately show ?thesis using fr(1) by simp
    qed
    have b: "list_all2 same_job J (jobs (committed (sess stf)))"
      if h1: "list_all2 same_job J (jobs (working (sess st)))"
        and h2: "list_all2 same_job J (jobs (committed (sess st)))"
    proof -
      have w: "list_all2 same_job J (jobs (working (sess (nx st1))))"
        using h1 fr(2) checkpoint_effect(7) [of st1 jid "Suc i"]
        by (auto simp: nx_def intro: list_all2_same_job_trans)
      have c: "list_all2 same_job J (jobs (committed (sess (nx st1))))"
        using h2 fr(1) w by (auto simp: nx_def checkpoint_effect(6))
      from ih w c show ?thesis by blast
    qed
    from ik a b show ?thesis by auto
  qed
qed

lemma initial_loop_state_simps:
  "sess (initial_loop_state s) = s"
  "imported (initial_loop_state s) = 0"
  "duplicates (initial_loop_state s) = 0"
  "cat_cache_ok (initial_loop_state s)"
  by (simp_all add: initial_loop_state_def cat_cache_ok_def)

lemma put_job_frame:
  "transactions (put_job j st) = transactions st"
  "categories (put_job j st) = categories st"
  "institutions (put_job j st) = institutions st"
  "accounts (put_job j st) = accounts st"
  "schemas (put_job j st) = schemas st"
  by (simp_all add: put_job_def)

lemma add_job_frame:
  "transactions (working (add_job j s)) = transactions (working s)"
  "categories (working (add_job j s)) = categories (working s)"
  "institutions (working (add_job j s)) = institutions (working s)"
  "accounts (working (add_job j s)) = accounts (working s)"
  "committed (add_job j s) = committed s"
  "next_id (add_job j s) = next_id s"
  by (simp_all add: add_job_def put_job_frame)

lemma update_job_frame:
  "transactions (working (update_job jid f s)) = transactions (working s)"
  "categories (working (update_job jid f s)) = categories (working s)"
  "institutions (working (update_job jid f s)) = institutions (working s)"
  "accounts (working (update_job jid f s)) = accounts (working s)"
  "committed (update_job jid f s) = committed s"
  by (simp_all add: update_job_def)

lemma find_map_update:
  "(\<And>j. job_id (f j) = job_id j) \<Longrightarrow>
   find (\<lambda>j. job_id j = jid) (map (\<lambda>j. if job_id j = jid then f j else j) js) =
   map_option f (find (\<lambda>j. job_id j = jid) js)"
  by (induction js) auto

lemma get_job_update_job:
  "(\<And>j. job_id (f j) = job_id j) \<Longrightarrow>
   get_job (working (update_job jid f s)) jid = map_option f (get_job (working s) jid)"
  by (simp add: get_job_def update_job_def find_map_update)

lemma same_job_fields:
  assumes "same_job j j'"
  shows "job_id j' = job_id j" "total_rows j' = total_rows j" "job_status j' = job_status j"
    "imported_rows j' = imported_rows j" "duplicate_rows j' = duplicate_rows j"
    "error_message j' = error_message j" "job_source_type j' = job_source_type j"
proof -
  from assms have e: "j = j'\<lparr> processed_rows := processed_rows j \<rparr>"
    by (simp add: same_job_def)
  show "job_id j' = job_id j" by (subst e) simp
  show "total_rows j' = total_rows j" by (subst e) simp
  show "job_status j' = job_status j" by (subst e) simp
  show "imported_rows j' = imported_rows j" by (subst e) simp
  show "duplicate_rows j' = duplicate_rows j" by (subst e) simp
  show "error_message j' = error_message j" by (subst e) simp
  show "job_source_type j' = job_source_type j" by (subst e) simp
qed

lemma find_same_job:
  "list_all2 same_job js js' \<Longrightarrow> find (\<lambda>j. job_id j = jid) js' = Some j' \<Longrightarrow>
   \<exists>j. find (\<lambda>j. job_id j = jid) js = Some j \<and> same_job j j'"
  by (induction rule: list_all2_induct) (auto simp: same_job_fields(1) split: if_splits)

lemma find_same_job_fwd:
  "list_all2 same_job js js' \<Longrightarrow> find (\<lambda>j. job_id j = jid) js = Some j \<Longrightarrow>
   \<exists>j'. find (\<lambda>j. job_id j = jid) js' = Some j' \<and> same_job j j'"
  by (induction rule: list_all2_induct) (auto simp: same_job_fields(1) split: if_splits)

lemma run_import_completed:
  assumes r: "run_import f parsers s uid fn content = Inr (job, s')"
    and c: "job_status job = COMPLETED"
  shows "imported_rows job + duplicate_rows job = total_rows job \<and>
    (\<exists>p rows staged.
        find_parser parsers content fn = Inr (Some p) \<and>
        parse_file p content fn = Inr rows \<and>
        total_rows job = length rows \<and>
        transactions (committed s') = transactions (working s) @ staged \<and>
        length staged = imported_rows job \<and>
        (\<forall>t \<in> set staged. txn_category_id t \<noteq> None \<and>
           (\<exists>r \<in> set rows. txn_of_row (job_id job) r (categories (committed s')) t)))"
proof -
  from r c obtain p where p: "find_parser parsers content fn = Inr (Some p)"
    by (auto simp: run_import_def Let_def new_job_def split: sum.splits option.splits)
  define job0 where "job0 = new_job (next_id s) uid fn (parser_name p) PROCESSING"
  define s1 where "s1 = add_job job0 (s\<lparr> next_id := Suc (next_id s) \<rparr>)"
  from r c p have t: "try_import f p s1 job0 uid fn content = Inr (job, s')"
    by (auto simp: run_import_def start_job_def Let_def job0_def s1_def
        split: sum.splits prod.splits)
  from t obtain rows where rows: "parse_file p content fn = Inr rows"
    by (auto simp: try_import_def split: sum.splits)
  from t rows obtain st where
    l: "import_rows f (Some uid) (job_id job0) rows (initial_loop_state s1) = Inr st" and
    j: "job = job0\<lparr> total_rows := length rows, imported_rows := imported st,
                    duplicate_rows := duplicates st, job_status := COMPLETED,
                    completed_at_set := True \<rparr>" and
    s': "s' = commit (add_job job (sess st))"
    by (auto simp: try_import_def Let_def split: sum.splits)
  note e = import_rows_effect [OF l initial_loop_state_simps(4)]
  from e obtain staged where
    st: "transactions (working (sess st)) = transactions (working s1) @ staged"
      "imported st = length staged"
      "\<forall>t \<in> set staged. \<exists>r \<in> set rows.
          txn_of_row (job_id job0) r (categories (working (sess st))) t"
    by (auto simp: initial_loop_state_simps)
  from j have jid: "job_id job = job_id job0" by simp
  have tx: "transactions (committed s') = transactions (working s) @ staged"
    using st(1) by (simp add: s' commit_def add_job_frame s1_def)
  have cs: "categories (committed s') = categories (working (sess st))"
    by (simp add: s' commit_def add_job_frame)
  have cat: "\<forall>t \<in> set staged. txn_category_id t \<noteq> None \<and>
           (\<exists>r \<in> set rows. txn_of_row (job_id job) r (categories (committed s')) t)"
    using st(3) unfolding jid cs by (auto simp: txn_of_row_def)
  from e have "imported st + duplicates st = length rows"
    by (simp add: initial_loop_state_simps)
  with j have cnt: "imported_rows job + duplicate_rows job = total_rows job" by simp
  from j st(2) have "length staged = imported_rows job" "total_rows job = length rows" by simp_all
  with p rows tx cat cnt show ?thesis by blast
qed

lemma fail_job_status:
  "get_job (committed (fail_job jid msg s)) jid = Some j \<Longrightarrow>
   job_status j = FAILED \<and> error_message j = Some msg \<and>
   (\<exists>j0. get_job (working s) jid = Some j0 \<and>
         j = j0\<lparr> job_status := FAILED, error_message := Some msg \<rparr>)"
  by (auto simp: fail_job_def commit_def get_job_update_job)

lemma fail_job_frame:
  "transactions (committed (fail_job jid msg s)) = transactions (working s)"
  "categories (committed (fail_job jid msg s)) = categories (working s)"
  "institutions (committed (fail_job jid msg s)) = institutions (working s)"
  "accounts (committed (fail_job jid msg s)) = accounts (working s)"
  by (simp_all add: fail_job_def commit_def update_job_frame)

lemma run_import_sync_success:
  assumes r: "run_import_sync f parsers s uid fn content jid op = Inr s'"
    and g: "get_job (committed s') jid = Some job"
    and c: "job_status job \<noteq> FAILED"
  shows "imported_rows job + duplicate_rows job = total_rows job \<and>
    (\<exists>p rows staged.
        find_parser parsers content fn = Inr (Some p) \<and>
        parse_file p content fn = Inr rows \<and>
        total_rows job = length rows \<and>
        transactions (committed s') = transactions (working s) @ staged \<and>
        length staged = imported_rows job \<and>
        (\<forall>t \<in> set staged. txn_category_id t \<noteq> None \<and>
           (\<exists>r \<in> set rows. txn_of_row jid r (categories (committed s')) t)))"
proof -
  from r obtain found job0 where fp: "find_parser parsers content fn = Inr found"
    and g0: "get_job (working s) jid = Some job0"
    by (auto simp: run_import_sync_def split: sum.splits option.splits)
  have "found \<noteq> None"
  proof
    assume "found = None"
    with r fp g0 have "s' = fail_job jid ''No parser found for this file format'' s"
      by (simp add: run_import_sync_def)
    with g c show False by (auto dest: fail_job_status)
  qed
  then obtain p where p: "found = Some p" by blast
  define s1 where "s1 = start_processing s jid p"
  from r fp g0 p have
    t: "(case try_import_sync f p s1 jid uid op fn content of
           Inr s2 \<Rightarrow> Inr s2
         | Inl (i, e, s_fail) \<Rightarrow> Inr (fail_job jid (take 1000 (exc_text e)) (rollback s_fail))) =
        (Inr s' :: pyexc + session)"
    by (simp add: run_import_sync_def Let_def s1_def)
  have ok: "try_import_sync f p s1 jid uid op fn content = Inr s'"
  proof (cases "try_import_sync f p s1 jid uid op fn content")
    case (Inl x)
    then obtain i e s_fail where "x = (i, e, s_fail)" by (cases x)
    with Inl t have "s' = fail_job jid (take 1000 (exc_text e)) (rollback s_fail)" by simp
    with g c show ?thesis by (auto dest: fail_job_status)
  next
    case (Inr s2)
    with t show ?thesis by simp
  qed
  from ok obtain rows where rows: "parse_file p content fn = Inr rows"
    by (auto simp: try_import_sync_def split: sum.splits)
  define s2 where "s2 = commit (update_job jid (\<lambda>j. j\<lparr> total_rows := length rows \<rparr>) s1)"
  from ok rows obtain st where
    l: "import_rows_sync f (Some uid) jid op 0 rows (initial_loop_state s2) = Inr st" and
    s': "s' = commit (update_job jid
                (\<lambda>j. j\<lparr> processed_rows := length rows, imported_rows := imported st,
                         duplicate_rows := duplicates st \<rparr>) (sess st))"
    by (auto simp: try_import_sync_def Let_def s2_def split: sum.splits prod.splits)
  note e = import_rows_sync_effect [OF l initial_loop_state_simps(4)]
  from e obtain staged where
    st: "transactions (working (sess st)) = transactions (working s2) @ staged"
      "imported st = length staged"
      "\<forall>t \<in> set staged. \<exists>r \<in> set rows. txn_of_row jid r (categories (working (sess st))) t"
    by (auto simp: initial_loop_state_simps)
  from e have jobs: "list_all2 same_job (jobs (working s2)) (jobs (working (sess st)))"
    by (simp add: initial_loop_state_simps)
  from g s' obtain jst where jst: "get_job (working (sess st)) jid = Some jst"
    and job: "job = jst\<lparr> processed_rows := length rows, imported_rows := imported st,
                         duplicate_rows := duplicates st \<rparr>"
    by (auto simp: commit_def get_job_update_job)
  from find_same_job [OF jobs] jst obtain j2 where
    j2: "get_job (working s2) jid = Some j2" and sj: "same_job j2 jst"
    by (auto simp: get_job_def)
  from j2 have "total_rows j2 = length rows"
    by (auto simp: s2_def commit_def get_job_update_job)
  with sj have "total_rows jst = length rows" by (simp add: same_job_fields)
  with job have tot: "total_rows job = length rows" by simp
  from e have "imported st + duplicates st = length rows"
    by (simp add: initial_loop_state_simps)
  with job tot have cnt: "imported_rows job + duplicate_rows job = total_rows job" by simp
  have tx: "transactions (committed s') = transactions (working s) @ staged"
    using st(1) by (simp add: s' commit_def update_job_frame s2_def s1_def start_processing_def)
  have cs: "categories (committed s') = categories (working (sess st))"
    by (simp add: s' commit_def update_job_frame)
  have cat: "\<forall>t \<in> set staged. txn_category_id t \<noteq> None \<and>
           (\<exists>r \<in> set rows. txn_of_row jid r (categories (committed s')) t)"
    using st(3) unfolding cs by (auto simp: txn_of_row_def)
  from job st(2) have "length staged = imported_rows job" by simp
  with fp p rows tx cat cnt tot show ?thesis by blast
qed

end
